theory Spec2Isabelle
  imports Complex_Main "HOL-Library.Sublist"
begin

text \<open>
  The scheduling core of the email-flow server, \<open>src/server/server.js\<close>: the handlers of
  \<open>POST /api/schedule-email\<close> and \<open>POST /api/schedule-sequence\<close>, the helper
  \<open>scheduleEmail\<close> and the job-health monitor. The file holds two generations of the
  handlers; the model follows the first and fuller one (lines 768 to 1203). The second
  has the same deferred-mode loop and the same computation of \<open>sendTime\<close>, without the
  reconnection attempts.
\<close>

section \<open>Time values\<close>

text \<open>
  A JavaScript \<open>Date\<close> is modelled by its time value: the number of milliseconds since
  the epoch, in UTC. The fields of a \<open>Date\<close> that the handlers read and set are local
  ones, so the model follows ECMAScript: \<open>LocalTime(t) = t + LocalTZA(t, true)\<close> and
  \<open>UTC(t) = t - LocalTZA(t, false)\<close>, where \<open>LocalTZA\<close>, the offset of the server's time
  zone, is given by the host. \<open>LocalTZA z t True\<close> is the offset in force at the instant
  \<open>t\<close>; \<open>LocalTZA z t False\<close> is the offset by which the local time \<open>t\<close> is read, which
  for a local time that a clock change skips or repeats is the offset before the change.
  Invalid dates (\<open>NaN\<close>) and the range limit of \<open>TimeClip\<close> are outside the model.
\<close>

type_synonym date = int

type_synonym zone = "int \<Rightarrow> bool \<Rightarrow> int"

definition msPerMinute :: int where
  "msPerMinute = 60 * 1000"

definition msPerHour :: int where
  "msPerHour = 60 * msPerMinute"

definition msPerDay :: int where
  "msPerDay = 24 * msPerHour"

definition Day :: "int \<Rightarrow> int" where
  "Day t = t div msPerDay"

definition TimeWithinDay :: "int \<Rightarrow> int" where
  "TimeWithinDay t = t mod msPerDay"

definition WeekDay :: "int \<Rightarrow> int" where
  "WeekDay t = (Day t + 4) mod 7"

definition HourFromTime :: "int \<Rightarrow> int" where
  "HourFromTime t = (t div msPerHour) mod 24"

definition MinFromTime :: "int \<Rightarrow> int" where
  "MinFromTime t = (t div msPerMinute) mod 60"

definition SecFromTime :: "int \<Rightarrow> int" where
  "SecFromTime t = (t div 1000) mod 60"

definition msFromTime :: "int \<Rightarrow> int" where
  "msFromTime t = t mod 1000"

definition MakeTime :: "int \<Rightarrow> int \<Rightarrow> int \<Rightarrow> int \<Rightarrow> int" where
  "MakeTime h m s milli = h * msPerHour + m * msPerMinute + s * 1000 + milli"

definition MakeDate :: "int \<Rightarrow> int \<Rightarrow> int" where
  "MakeDate day time = day * msPerDay + time"

definition LocalTime :: "zone \<Rightarrow> date \<Rightarrow> int" where
  "LocalTime z t = t + z t True"

definition UTC :: "zone \<Rightarrow> int \<Rightarrow> date" where
  "UTC z t = t - z t False"

definition getDay :: "zone \<Rightarrow> date \<Rightarrow> int" where
  "getDay z t = WeekDay (LocalTime z t)"



text \<open>\<open>d.setMinutes(d.getMinutes() + n)\<close> and \<open>d.setHours(d.getHours() + n)\<close> for an
  integer \<open>n\<close>: the local fields are read, one of them is changed, and the local time they
  make is read back as an instant. The fields are not reduced, so an overflow carries.\<close>

definition addMinutes :: "zone \<Rightarrow> date \<Rightarrow> int \<Rightarrow> date" where
  "addMinutes z t n =
     (let l = LocalTime z t
      in UTC z (MakeDate (Day l)
                  (MakeTime (HourFromTime l) (MinFromTime l + n) (SecFromTime l) (msFromTime l))))"

definition addHours :: "zone \<Rightarrow> date \<Rightarrow> int \<Rightarrow> date" where
  "addHours z t n =
     (let l = LocalTime z t
      in UTC z (MakeDate (Day l)
                  (MakeTime (HourFromTime l + n) (MinFromTime l) (SecFromTime l) (msFromTime l))))"

text \<open>\<open>d.setDate(d.getDate() + n)\<close>: the local day number moves by \<open>n\<close> (that is what
  \<open>MakeDay\<close> yields for the year, the month and a date moved by \<open>n\<close>) and the local time
  within the day is kept.\<close>

definition addDays :: "zone \<Rightarrow> date \<Rightarrow> int \<Rightarrow> date" where
  "addDays z t n = (let l = LocalTime z t in UTC z (MakeDate (Day l + n) (TimeWithinDay l)))"

text \<open>\<open>d.setHours(h, m, 0, 0)\<close>: the local day of \<open>d\<close> at \<open>h:m:00.000\<close>, read back as an
  instant. The hour and the minute are not reduced: an hour beyond 23 or below 0 carries
  into another day.\<close>

definition setHours :: "zone \<Rightarrow> date \<Rightarrow> int \<Rightarrow> int \<Rightarrow> date" where
  "setHours z t h m = UTC z (MakeDate (Day (LocalTime z t)) (MakeTime h m 0 0))"

text \<open>\<open>Math.floor(Math.random() * n)\<close>, for the number \<open>r\<close> that \<open>Math.random()\<close>
  returned (\<open>0 \<le> r < 1\<close>); the rounding of the floating-point product is not modelled.\<close>

definition random_floor :: "real \<Rightarrow> int \<Rightarrow> int" where
  "random_floor r n = \<lfloor>r * of_int n\<rfloor>"

section \<open>The job store\<close>

record job_data =
  job_to :: "string option"
  job_subject :: "string option"
  job_body :: "string option"
  job_userId :: string

record job =
  name :: string
  data :: job_data
  nextRunAt :: "date option"
  lockedAt :: "date option"

text \<open>The \<open>emailJobs\<close> collection, in insertion order.\<close>

type_synonym store = "job list"

text \<open>What \<open>agenda.schedule(when, name, data)\<close> leaves in the collection when it
  succeeds: a new job due at \<open>when\<close>, not locked.\<close>

definition new_job :: "date \<Rightarrow> string \<Rightarrow> job_data \<Rightarrow> job" where
  "new_job when n d = \<lparr>name = n, data = d, nextRunAt = Some when, lockedAt = None\<rparr>"

section \<open>The environment of a request\<close>

datatype js_error = MongoNotConnectedError | TypeError | OtherError

text \<open>
  Everything a handler reads from outside is a field of the environment, indexed by the
  number of earlier uses where the handler uses it more than once: \<open>LocalTZA env\<close> is
  the time zone of the server,
  \<open>clock env k\<close> is the value of the \<open>k\<close>-th \<open>new Date()\<close> whose value the handler uses,
  \<open>Math_random env k\<close> the \<open>k\<close>-th \<open>Math.random()\<close>, and \<open>agenda_schedule env k\<close>,
  \<open>connectToDatabase env k\<close>, \<open>initializeAgenda env k\<close> say whether the \<open>k\<close>-th such call
  returns (\<open>None\<close>) or throws. \<open>agenda\<close>, \<open>agendaInitialized\<close> and \<open>transporter\<close> say
  whether the module variables of these names are set when the handler starts,
  \<open>email_configured\<close> whether \<open>EMAIL_USER\<close> and \<open>EMAIL_PASS\<close> are, \<open>initializeTransporter\<close>
  what that function returns, and \<open>findOne\<close> whether the job just stored is found again.
  A call of \<open>agenda.schedule\<close> that throws stores nothing.
\<close>

record env =
  LocalTZA :: zone
  clock :: "nat \<Rightarrow> date"
  Math_random :: "nat \<Rightarrow> real"
  email_configured :: bool
  agenda :: bool
  agendaInitialized :: bool
  initializeAgenda :: "nat \<Rightarrow> js_error option"
  connectToDatabase :: "nat \<Rightarrow> js_error option"
  transporter :: bool
  initializeTransporter :: bool
  agenda_schedule :: "nat \<Rightarrow> js_error option"
  findOne :: bool

section \<open>The job-health monitor\<close>

text \<open>The filter \<open>{lockedAt: {$lt: bound}}\<close>: a job that is not locked does not match.\<close>

definition locked_before :: "date \<Rightarrow> job \<Rightarrow> bool" where
  "locked_before bound j = (case lockedAt j of None \<Rightarrow> False | Some t \<Rightarrow> t < bound)"

text \<open>One run of the function given to \<open>setInterval\<close>, at \<open>Date.now() = now\<close>. The two
  counts are only logged, but the second one guards the update.\<close>

definition monitor_sweep :: "env \<Rightarrow> date \<Rightarrow> store \<Rightarrow> store" where
  "monitor_sweep e now jobs =
     (if agenda e \<and> agendaInitialized e then
        (case connectToDatabase e 0 of
           Some err \<Rightarrow> jobs
         | None \<Rightarrow>
            (let pendingJobs = length (filter (\<lambda>j. nextRunAt j \<noteq> None \<and> lockedAt j = None) jobs);
                 lockedJobs = length (filter (\<lambda>j. lockedAt j \<noteq> None) jobs)
             in if lockedJobs > 0 then
                  (let fiveMinutesAgo = now - 5 * 60 * 1000
                   in map (\<lambda>j. if locked_before fiveMinutesAgo j then j\<lparr>lockedAt := None\<rparr> else j) jobs)
                else jobs))
      else jobs)"

section \<open>Responses\<close>

record entry =
  email :: "string option"
  entry_subject :: "string option"
  scheduledFor :: date

record options =
  startDate :: date
  fromTime :: int
  toTime :: int
  days :: "string list"

text \<open>The JSON bodies the two handlers send. The \<open>details\<close> text of an error and the
  store-generated \<open>jobId\<close> are not modelled.\<close>

datatype body =
    Error string
  | ErrorMessage string string
  | EmailScheduled string date
  | SequenceSent string "entry list"
  | SequenceScheduled string "entry list" options

datatype response = Json nat body

section \<open>The scheduler handle\<close>

text \<open>The opening of both handlers:
  \<^verbatim>\<open>if (!agenda || !agendaInitialized) { await initializeAgenda(); }
if (!agenda) { return res.status(503)... }\<close>
  \<open>initializeAgenda\<close> sets \<open>agenda\<close> before it returns, and throws otherwise. The result
  carries the number of \<open>initializeAgenda\<close> calls made.\<close>

datatype prelude = Available nat | Unavailable | Thrown js_error

definition ensure_agenda :: "env \<Rightarrow> prelude" where
  "ensure_agenda e =
     (if \<not> agenda e \<or> \<not> agendaInitialized e then
        (case initializeAgenda e 0 of
           Some err \<Rightarrow> Thrown err
         | None \<Rightarrow> Available 1)
      else if \<not> agenda e then Unavailable
      else Available 0)"

section \<open>Scheduling a single email\<close>

record email_request =
  req_to :: "string option"
  req_subject :: "string option"
  req_body :: "string option"
  delay :: int
  unit :: "string option"
  req_userId :: string

text \<open>The computation of \<open>sendTime\<close> from \<open>new Date()\<close>, the same in the handler of
  \<open>POST /api/schedule-email\<close> and in the helper \<open>scheduleEmail\<close>. A missing \<open>unit\<close> is
  \<open>None\<close>; \<open>delay\<close> is an integer.\<close>

definition sendTime_after :: "zone \<Rightarrow> date \<Rightarrow> int \<Rightarrow> string option \<Rightarrow> date" where
  "sendTime_after z now d u =
     (if u = Some ''minutes'' then addMinutes z now d
      else if u = Some ''hours'' then addHours z now d
      else if u = Some ''days'' then addDays z now d
      else now)"

definition request_job_data :: "email_request \<Rightarrow> job_data" where
  "request_job_data req =
     \<lparr>job_to = req_to req, job_subject = req_subject req, job_body = req_body req,
      job_userId = req_userId req\<rparr>"

text \<open>The inner \<open>try\<close> block of the handler. \<open>Inr\<close> is the response it sends; \<open>Inl\<close> is
  the error it throws, with the store and the number of \<open>agenda.schedule\<close> calls made
  by then.\<close>

definition schedule_email_try ::
  "env \<Rightarrow> date \<Rightarrow> job_data \<Rightarrow> store \<Rightarrow> (js_error \<times> store \<times> nat) + (response \<times> store)" where
  "schedule_email_try e sendTime jd jobs =
     (case connectToDatabase e 0 of
        Some err \<Rightarrow> Inl (err, jobs, 0)
      | None \<Rightarrow>
         if \<not> transporter e \<and> \<not> initializeTransporter e then
           Inr (Json 500 (Error ''Failed to initialize email service''), jobs)
         else
           (case agenda_schedule e 0 of
              Some err \<Rightarrow> Inl (err, jobs, 1)
            | None \<Rightarrow>
               (let jobs' = jobs @ [new_job sendTime ''send email'' jd]
                in case connectToDatabase e 1 of
                     Some err \<Rightarrow> Inl (err, jobs', 1)
                   | None \<Rightarrow>
                      if \<not> findOne e then
                        Inr (Json 500 (Error ''Failed to verify job was scheduled''), jobs')
                      else
                        Inr (Json 200 (EmailScheduled ''Email scheduled successfully'' sendTime),
                             jobs'))))"

definition schedule_email :: "env \<Rightarrow> email_request \<Rightarrow> store \<Rightarrow> response \<times> store" where
  "schedule_email e req jobs =
     (if \<not> email_configured e then (Json 500 (Error ''Email configuration is missing''), jobs)
      else
        (case ensure_agenda e of
           Thrown err \<Rightarrow> (Json 500 (Error ''Failed to schedule email''), jobs)
         | Unavailable \<Rightarrow> (Json 503 (Error ''Scheduling service is not available''), jobs)
         | Available inits \<Rightarrow>
            (let sendTime = sendTime_after (LocalTZA e) (clock e 0) (delay req) (unit req);
                 jd = request_job_data req
             in case schedule_email_try e sendTime jd jobs of
                  Inr r \<Rightarrow> r
                | Inl (err, jobs', calls) \<Rightarrow>
                   if err = MongoNotConnectedError then
                     (case initializeAgenda e inits of
                        Some err' \<Rightarrow> (Json 500 (Error ''Failed to schedule email''), jobs')
                      | None \<Rightarrow>
                         (case agenda_schedule e calls of
                            Some err' \<Rightarrow> (Json 500 (Error ''Failed to schedule email''), jobs')
                          | None \<Rightarrow>
                             (Json 200 (EmailScheduled
                                ''Email scheduled successfully after reconnection'' sendTime),
                              jobs' @ [new_job sendTime ''send email'' jd])))
                   else (Json 500 (Error ''Failed to schedule email''), jobs'))))"

text \<open>The helper \<open>scheduleEmail\<close>: it returns \<open>{scheduledFor, reconnected?}\<close> or throws.\<close>

definition scheduleEmail ::
  "env \<Rightarrow> email_request \<Rightarrow> store \<Rightarrow> (js_error + date \<times> bool) \<times> store" where
  "scheduleEmail e req jobs =
     (case ensure_agenda e of
        Thrown err \<Rightarrow> (Inl err, jobs)
      | Unavailable \<Rightarrow> (Inl OtherError, jobs)
      | Available inits \<Rightarrow>
         (let sendTime = sendTime_after (LocalTZA e) (clock e 0) (delay req) (unit req);
              jd = request_job_data req;
              thrown = (case connectToDatabase e 0 of
                          Some err \<Rightarrow> Some (err, 0)
                        | None \<Rightarrow> (case agenda_schedule e 0 of
                                      Some err \<Rightarrow> Some (err, 1)
                                    | None \<Rightarrow> None))
          in case thrown of
               None \<Rightarrow> (Inr (sendTime, False), jobs @ [new_job sendTime ''send email'' jd])
             | Some (err, calls) \<Rightarrow>
                if err = MongoNotConnectedError then
                  (case initializeAgenda e inits of
                     Some err' \<Rightarrow> (Inl err', jobs)
                   | None \<Rightarrow>
                      (case agenda_schedule e calls of
                         Some err' \<Rightarrow> (Inl err', jobs)
                       | None \<Rightarrow>
                          (Inr (sendTime, True), jobs @ [new_job sendTime ''send email'' jd])))
                else (Inl err, jobs)))"

section \<open>Scheduling a sequence\<close>

record email_data =
  recipient :: "string option"
  subject :: "string option"
  body :: "string option"

text \<open>An element of \<open>sequence\<close>. An item without a \<open>data\<close> object has \<open>item_data = None\<close>;
  a field of \<open>data\<close> that is absent is \<open>None\<close>.\<close>

record item =
  item_id :: string
  item_type :: string
  item_data :: "email_data option"

text \<open>The \<open>schedulingOptions\<close> of the request: every field may be absent. \<open>startDate\<close>
  is the time value that \<open>new Date(options.startDate)\<close> yields, and \<open>fromTime\<close>,
  \<open>toTime\<close> are the integers that \<open>Number\<close> yields on the text before the first colon
  (9 for \<open>09:00\<close>); hour fields that are not integers are outside the model.\<close>

record scheduling_options =
  opt_startDate :: "date option"
  opt_fromTime :: "int option"
  opt_toTime :: "int option"
  opt_days :: "string list option"

record sequence_request =
  sequence :: "item list"
  schedulingOptions :: "scheduling_options option"
  sendNow :: bool
  userId :: string

text \<open>The handler's local variables, the store, and how often the environment has been
  used so far.\<close>

record handler_state =
  currentDate :: date
  hasValidEmails :: bool
  hasMissingRecipients :: bool
  scheduledEmails :: "entry list"
  jobs :: store
  reads :: nat
  draws :: nat
  calls :: nat
  inits :: nat

text \<open>A string operand of \<open>!\<close> and \<open>||\<close>: absent and empty strings are falsy.\<close>

definition truthy :: "string option \<Rightarrow> bool" where
  "truthy s = (case s of None \<Rightarrow> False | Some v \<Rightarrow> v \<noteq> [])"

definition or_else :: "string option \<Rightarrow> string \<Rightarrow> string" where
  "or_else s d = (case s of None \<Rightarrow> d | Some v \<Rightarrow> if v = [] then d else v)"

subsection \<open>Immediate mode\<close>

definition immediate_job_data :: "string \<Rightarrow> email_data \<Rightarrow> job_data" where
  "immediate_job_data uid d =
     \<lparr>job_to = recipient d, job_subject = Some (or_else (subject d) ''No Subject''),
      job_body = Some (or_else (body d) []), job_userId = uid\<rparr>"

definition immediate_entry :: "email_data \<Rightarrow> date \<Rightarrow> entry" where
  "immediate_entry d sendTime =
     \<lparr>email = recipient d, entry_subject = Some (or_else (subject d) ''No Subject''),
      scheduledFor = sendTime\<rparr>"

text \<open>The body of the immediate-mode \<open>for\<close> loop. \<open>Inl\<close> is an error that leaves the
  loop, with the store as it is then.\<close>

definition send_item ::
  "env \<Rightarrow> string \<Rightarrow> item \<Rightarrow> handler_state \<Rightarrow> (js_error \<times> store) + handler_state" where
  "send_item e uid it st =
     (if item_type it = ''coldEmail'' then
        (case item_data it of
           None \<Rightarrow> Inr (st\<lparr>hasMissingRecipients := True\<rparr>)
         | Some d \<Rightarrow>
            if \<not> truthy (recipient d) then Inr (st\<lparr>hasMissingRecipients := True\<rparr>)
            else
              (let sendTime = addMinutes (LocalTZA e) (clock e (reads st)) 1;
                   st1 = st\<lparr>hasValidEmails := True, reads := reads st + 1\<rparr>;
                   pushed = (\<lambda>s. s\<lparr>jobs := jobs s @ [new_job sendTime ''send email''
                                                          (immediate_job_data uid d)],
                                 scheduledEmails := scheduledEmails s @
                                                      [immediate_entry d sendTime]\<rparr>)
               in case agenda_schedule e (calls st) of
                    None \<Rightarrow> Inr (pushed (st1\<lparr>calls := calls st + 1\<rparr>))
                  | Some err \<Rightarrow>
                     if err = MongoNotConnectedError then
                       (case initializeAgenda e (inits st) of
                          Some err' \<Rightarrow> Inl (err', jobs st)
                        | None \<Rightarrow>
                           (let st2 = st1\<lparr>calls := calls st + 2, inits := inits st + 1\<rparr>
                            in case agenda_schedule e (calls st + 1) of
                                 None \<Rightarrow> Inr (pushed st2)
                               | Some retryErr \<Rightarrow> Inr st2))
                     else Inr (st1\<lparr>calls := calls st + 1\<rparr>)))
      else Inr st)"

fun send_items ::
  "env \<Rightarrow> string \<Rightarrow> item list \<Rightarrow> handler_state \<Rightarrow> (js_error \<times> store) + handler_state" where
  "send_items e uid [] st = Inr st"
| "send_items e uid (it # rest) st =
     (case send_item e uid it st of
        Inl err \<Rightarrow> Inl err
      | Inr st' \<Rightarrow> send_items e uid rest st')"

subsection \<open>Deferred mode\<close>

definition toLowerCase_char :: "char \<Rightarrow> char" where
  "toLowerCase_char c =
     (case map_of (zip ''ABCDEFGHIJKLMNOPQRSTUVWXYZ'' ''abcdefghijklmnopqrstuvwxyz'') c of
        None \<Rightarrow> c
      | Some l \<Rightarrow> l)"

text \<open>\<open>toLowerCase\<close> on the letters of ASCII. No character outside ASCII is mapped to a
  letter of a key of \<open>dayMap\<close>, so the lookup below is the same.\<close>

definition toLowerCase :: "string \<Rightarrow> string" where
  "toLowerCase s = map toLowerCase_char s"

definition dayMap :: "string \<Rightarrow> int option" where
  "dayMap = map_of [(''sunday'', 0), (''monday'', 1), (''tuesday'', 2), (''wednesday'', 3),
                    (''thursday'', 4), (''friday'', 5), (''saturday'', 6)]"

text \<open>\<open>options.days.map(day => dayMap[day.toLowerCase()])\<close>. \<open>None\<close> stands for every
  value that is not one of the seven numbers: \<open>undefined\<close> for an unknown name, or an
  inherited property of the object literal; \<open>includes(dayOfWeek)\<close> matches none of them.\<close>

definition scheduleDays_of :: "string list \<Rightarrow> int option list" where
  "scheduleDays_of ds = map (\<lambda>day. dayMap (toLowerCase day)) ds"

text \<open>The defaults, overridden by the fields the request supplies. The \<open>startDate\<close>
  default is \<open>new Date()\<close>, evaluated whether or not it is overridden.\<close>

definition normalize_options :: "date \<Rightarrow> scheduling_options option \<Rightarrow> options" where
  "normalize_options now so =
     (let dflt = \<lparr>startDate = now, fromTime = 9, toTime = 17,
                  days = [''monday'', ''tuesday'', ''wednesday'', ''thursday'', ''friday'']\<rparr>
      in case so of
           None \<Rightarrow> dflt
         | Some s \<Rightarrow>
            \<lparr>startDate = (case opt_startDate s of None \<Rightarrow> startDate dflt | Some v \<Rightarrow> v),
             fromTime = (case opt_fromTime s of None \<Rightarrow> fromTime dflt | Some v \<Rightarrow> v),
             toTime = (case opt_toTime s of None \<Rightarrow> toTime dflt | Some v \<Rightarrow> v),
             days = (case opt_days s of None \<Rightarrow> days dflt | Some v \<Rightarrow> v)\<rparr>)"

definition deferred_job_data :: "string \<Rightarrow> email_data \<Rightarrow> job_data" where
  "deferred_job_data uid d =
     \<lparr>job_to = recipient d, job_subject = subject d, job_body = body d, job_userId = uid\<rparr>"

definition deferred_entry :: "email_data \<Rightarrow> date \<Rightarrow> entry" where
  "deferred_entry d sendTime =
     \<lparr>email = recipient d, entry_subject = subject d, scheduledFor = sendTime\<rparr>"

text \<open>The \<open>while (!foundValidDay && daysChecked < 14)\<close> loop for one \<open>coldEmail\<close> item,
  from \<open>daysChecked\<close> on. Once a valid day is found the loop ends with that iteration.
  Reading \<open>item.data.recipient\<close> of an item without \<open>data\<close> throws a \<open>TypeError\<close>; an
  error of \<open>agenda.schedule\<close> is not caught here either.\<close>

function valid_day_search ::
  "env \<Rightarrow> string \<Rightarrow> int option list \<Rightarrow> int \<Rightarrow> int \<Rightarrow> item \<Rightarrow> nat \<Rightarrow> handler_state
     \<Rightarrow> (js_error \<times> store) + handler_state" where
  "valid_day_search e uid scheduleDays fromHour toHour it daysChecked st =
     (if daysChecked < 14 then
        (let dayOfWeek = getDay (LocalTZA e) (currentDate st)
         in if Some dayOfWeek \<in> set scheduleDays then
              (let randomHour = random_floor (Math_random e (draws st)) (toHour - fromHour + 1)
                                  + fromHour;
                   randomMinute = random_floor (Math_random e (draws st + 1)) 60;
                   sendTime = setHours (LocalTZA e) (currentDate st) randomHour randomMinute;
                   st1 = st\<lparr>draws := draws st + 2, reads := reads st + 1\<rparr>
               in if sendTime > clock e (reads st) then
                    (case item_data it of
                       None \<Rightarrow> Inl (TypeError, jobs st)
                     | Some d \<Rightarrow>
                        (case agenda_schedule e (calls st) of
                           Some err \<Rightarrow> Inl (err, jobs st)
                         | None \<Rightarrow>
                            Inr (st1\<lparr>calls := calls st + 1,
                                     jobs := jobs st @ [new_job sendTime ''send email''
                                                          (deferred_job_data uid d)],
                                     scheduledEmails := scheduledEmails st @
                                                          [deferred_entry d sendTime],
                                     currentDate := addDays (LocalTZA e) (currentDate st) 1\<rparr>)))
                  else Inr st1)
            else valid_day_search e uid scheduleDays fromHour toHour it (daysChecked + 1)
                   (st\<lparr>currentDate := addDays (LocalTZA e) (currentDate st) 1\<rparr>))
      else Inr st)"
  by pat_completeness auto
termination
  by (relation "measure (\<lambda>(e, uid, scheduleDays, fromHour, toHour, it, daysChecked, st).
                           14 - daysChecked)") auto

declare valid_day_search.simps [simp del]

text \<open>The deferred-mode \<open>for\<close> loop over the sequence.\<close>

fun schedule_items ::
  "env \<Rightarrow> string \<Rightarrow> int option list \<Rightarrow> int \<Rightarrow> int \<Rightarrow> item list \<Rightarrow> handler_state
     \<Rightarrow> (js_error \<times> store) + handler_state" where
  "schedule_items e uid scheduleDays fromHour toHour [] st = Inr st"
| "schedule_items e uid scheduleDays fromHour toHour (it # rest) st =
     (if item_type it = ''coldEmail'' then
        (case valid_day_search e uid scheduleDays fromHour toHour it 0 st of
           Inl err \<Rightarrow> Inl err
         | Inr st' \<Rightarrow> schedule_items e uid scheduleDays fromHour toHour rest st')
      else schedule_items e uid scheduleDays fromHour toHour rest st)"

subsection \<open>The handler of \<open>POST /api/schedule-sequence\<close>\<close>

definition initial_state :: "store \<Rightarrow> nat \<Rightarrow> handler_state" where
  "initial_state jobs0 n =
     \<lparr>currentDate = 0, hasValidEmails = False, hasMissingRecipients = False,
      scheduledEmails = [], jobs = jobs0, reads = 0, draws = 0, calls = 0, inits = n\<rparr>"

definition no_recipients_message :: string where
  "no_recipients_message =
     ''None of your email nodes have recipient addresses. Please add recipient email addresses to your nodes.''"

definition no_email_nodes_message :: string where
  "no_email_nodes_message = ''No valid email nodes found in the sequence.''"

definition failed_to_schedule :: response where
  "failed_to_schedule = Json 500 (Error ''Failed to schedule sequence'')"

definition schedule_sequence :: "env \<Rightarrow> sequence_request \<Rightarrow> store \<Rightarrow> response \<times> store" where
  "schedule_sequence e req jobs0 =
     (case ensure_agenda e of
        Thrown err \<Rightarrow> (failed_to_schedule, jobs0)
      | Unavailable \<Rightarrow> (Json 503 (Error ''Scheduling service is not available''), jobs0)
      | Available n \<Rightarrow>
         if sendNow req then
           (case connectToDatabase e 0 of
              Some err \<Rightarrow> (failed_to_schedule, jobs0)
            | None \<Rightarrow>
               (case send_items e (userId req) (sequence req) (initial_state jobs0 n) of
                  Inl (err, jobs') \<Rightarrow> (failed_to_schedule, jobs')
                | Inr st \<Rightarrow>
                   if \<not> hasValidEmails st then
                     (Json 400 (ErrorMessage
                        (if hasMissingRecipients st then no_recipients_message
                         else no_email_nodes_message)
                        ''Failed to send emails''), jobs st)
                   else
                     (Json 200 (SequenceSent ''Sequence sent successfully'' (scheduledEmails st)),
                      jobs st)))
         else
           (let options = normalize_options (clock e 0) (schedulingOptions req);
                fromHour = fromTime options;
                toHour = toTime options;
                scheduleDays = scheduleDays_of (days options);
                st0 = (initial_state jobs0 n)\<lparr>currentDate := startDate options, reads := 1\<rparr>
            in case schedule_items e (userId req) scheduleDays fromHour toHour (sequence req) st0 of
                 Inl (err, jobs') \<Rightarrow> (failed_to_schedule, jobs')
               | Inr st \<Rightarrow>
                  (Json 200 (SequenceScheduled ''Sequence scheduled successfully''
                     (scheduledEmails st) options), jobs st)))"

section \<open>Notions the properties are stated with\<close>

text \<open>The \<open>coldEmail\<close> items of a sequence, and what an entry of the response and an
  item have in common: the recipient and the subject.\<close>

definition coldEmails :: "item list \<Rightarrow> item list" where
  "coldEmails items = filter (\<lambda>it. item_type it = ''coldEmail'') items"



text \<open>The cursor after \<open>n\<close> runs of \<open>currentDate.setDate(currentDate.getDate() + 1)\<close>.\<close>

definition advance :: "zone \<Rightarrow> nat \<Rightarrow> date \<Rightarrow> date" where
  "advance z n t = ((\<lambda>c. addDays z c 1) ^^ n) t"




text \<open>What a job and the entry returned for it have in common.\<close>

definition job_key :: "job \<Rightarrow> string option \<times> string option \<times> date option" where
  "job_key j = (job_to (data j), job_subject (data j), nextRunAt j)"

definition entry_job_key :: "entry \<Rightarrow> string option \<times> string option \<times> date option" where
  "entry_job_key en = (email en, entry_subject en, Some (scheduledFor en))"

text \<open>An item that immediate mode schedules: a \<open>coldEmail\<close> item with a recipient.\<close>

definition eligible :: "item \<Rightarrow> bool" where
  "eligible it =
     (item_type it = ''coldEmail'' \<and>
      (case item_data it of None \<Rightarrow> False | Some d \<Rightarrow> truthy (recipient d)))"

section \<open>Sample inputs\<close>

text \<open>A server on UTC.\<close>

definition utc :: zone where
  "utc = (\<lambda>t isUTC. 0)"

text \<open>A zone with one daylight-saving period: the offset is \<open>dst\<close> from the instant
  \<open>T1\<close> up to the instant \<open>T2\<close> and \<open>std\<close> otherwise, with \<open>std < dst\<close>. A local time
  that the change at \<open>T1\<close> skips or the change at \<open>T2\<close> repeats is read by the offset
  before the change.\<close>

definition dst_zone :: "int \<Rightarrow> int \<Rightarrow> int \<Rightarrow> int \<Rightarrow> zone" where
  "dst_zone std dst T1 T2 =
     (\<lambda>t isUTC. if isUTC then (if T1 \<le> t \<and> t < T2 then dst else std)
                 else (if T1 + dst \<le> t \<and> t < T2 + dst then dst else std))"

text \<open>America/New_York in 2024: daylight saving from 10 March 07:00 UTC to 3 November
  06:00 UTC.\<close>

definition new_york :: zone where
  "new_york = dst_zone (- 5 * msPerHour) (- 4 * msPerHour) 1710054000000 1730613600000"


text \<open>An environment in which every external call succeeds, with the given clock and
  random numbers, on UTC or in a given zone.\<close>

definition calm :: "(nat \<Rightarrow> date) \<Rightarrow> (nat \<Rightarrow> real) \<Rightarrow> env" where
  "calm ck rnd =
     \<lparr>LocalTZA = utc, clock = ck, Math_random = rnd, email_configured = True, agenda = True,
      agendaInitialized = True, initializeAgenda = (\<lambda>k. None),
      connectToDatabase = (\<lambda>k. None), transporter = True, initializeTransporter = True,
      agenda_schedule = (\<lambda>k. None), findOne = True\<rparr>"

definition calm_in :: "zone \<Rightarrow> (nat \<Rightarrow> date) \<Rightarrow> (nat \<Rightarrow> real) \<Rightarrow> env" where
  "calm_in z ck rnd = (calm ck rnd)\<lparr>LocalTZA := z\<rparr>"

definition sample_data :: job_data where
  "sample_data = \<lparr>job_to = Some ''a@example.com'', job_subject = Some ''Hello'',
                  job_body = Some ''Hi'', job_userId = ''u1''\<rparr>"

definition sample_jobs :: store where
  "sample_jobs =
     [\<lparr>name = ''send email'', data = sample_data, nextRunAt = Some 100000, lockedAt = Some 240000\<rparr>,
      \<lparr>name = ''send email'', data = sample_data, nextRunAt = Some 100000, lockedAt = Some 360000\<rparr>,
      \<lparr>name = ''send email'', data = sample_data, nextRunAt = Some 900000, lockedAt = None\<rparr>]"

definition weekly_request :: email_request where
  "weekly_request =
     \<lparr>req_to = Some ''a@example.com'', req_subject = Some ''Hello'', req_body = Some ''Hi'',
      delay = 5, unit = Some ''weeks'', req_userId = ''u1''\<rparr>"

definition cold :: "string \<Rightarrow> string \<Rightarrow> item" where
  "cold i r = \<lparr>item_id = i, item_type = ''coldEmail'',
               item_data = Some \<lparr>recipient = Some r, subject = Some ''Hello'', body = Some ''Hi''\<rparr>\<rparr>"

definition wait :: "string \<Rightarrow> item" where
  "wait i = \<lparr>item_id = i, item_type = ''waitDelay'', item_data = None\<rparr>"

definition no_data :: "string \<Rightarrow> item" where
  "no_data i = \<lparr>item_id = i, item_type = ''coldEmail'', item_data = None\<rparr>"

text \<open>Monday 5 January 1970, 00:00 UTC.\<close>

definition monday :: date where
  "monday = 4 * msPerDay"

text \<open>A request with a start date and the default window and days.\<close>

definition deferred_request :: "item list \<Rightarrow> date \<Rightarrow> sequence_request" where
  "deferred_request items start =
     \<lparr>sequence = items,
      schedulingOptions = Some \<lparr>opt_startDate = Some start, opt_fromTime = None,
                                 opt_toTime = None, opt_days = None\<rparr>,
      sendNow = False, userId = ''u1''\<rparr>"


definition work_days :: "string list" where
  "work_days = [''monday'', ''tuesday'', ''wednesday'', ''thursday'', ''friday'']"










text \<open>On UTC, Monday at noon; the start date is the same Monday, or the Saturday
  before.\<close>

definition noon_request :: sequence_request where
  "noon_request =
     deferred_request [cold ''n1'' ''a@example.com'', cold ''n2'' ''b@example.com''] monday"

definition noon_env :: env where
  "noon_env = calm (\<lambda>k. monday + 12 * msPerHour) (\<lambda>k. if k < 2 then 0 else 1 / 2)"

definition weekdays :: "int option list" where
  "weekdays = [Some 1, Some 2, Some 3, Some 4, Some 5]"

definition noon_state :: handler_state where
  "noon_state = (initial_state [] 0)\<lparr>currentDate := monday, reads := 1\<rparr>"

definition weekend_state :: handler_state where
  "weekend_state = (initial_state [] 0)\<lparr>currentDate := monday - 2 * msPerDay, reads := 1\<rparr>"

text \<open>On UTC: an item without \<open>data\<close> after one that is scheduled, and the state of the
  handler between the two.\<close>

definition broken_request :: sequence_request where
  "broken_request =
     deferred_request
       [cold ''n1'' ''a@example.com'', no_data ''n2'', cold ''n3'' ''c@example.com''] monday"

definition first_job :: job where
  "first_job = new_job 394200000 ''send email''
     \<lparr>job_to = Some ''a@example.com'', job_subject = Some ''Hello'', job_body = Some ''Hi'',
      job_userId = ''u1''\<rparr>"

definition after_first :: handler_state where
  "after_first =
     \<lparr>currentDate = 5 * msPerDay, hasValidEmails = False, hasMissingRecipients = False,
      scheduledEmails = [\<lparr>email = Some ''a@example.com'', entry_subject = Some ''Hello'',
                          scheduledFor = 394200000\<rparr>],
      jobs = [first_job], reads = 2, draws = 2, calls = 1, inits = 0\<rparr>"

definition default_options :: options where
  "default_options = \<lparr>startDate = monday, fromTime = 9, toTime = 17, days = work_days\<rparr>"

text \<open>On UTC, Monday at 18:00, default options: every draw of the day lies in the past.\<close>

definition evening_request :: sequence_request where
  "evening_request =
     \<lparr>sequence = [no_data ''n1''], schedulingOptions = None, sendNow = False, userId = ''u1''\<rparr>"

text \<open>A \<open>coldEmail\<close> item without a recipient.\<close>

definition unaddressed :: "string \<Rightarrow> item" where
  "unaddressed i = \<lparr>item_id = i, item_type = ''coldEmail'',
     item_data = Some \<lparr>recipient = None, subject = Some ''Hello'', body = Some ''Hi''\<rparr>\<rparr>"

definition anonymous_request :: sequence_request where
  "anonymous_request = deferred_request [unaddressed ''n1''] monday"

definition delays_only_request :: sequence_request where
  "delays_only_request =
     \<lparr>sequence = [wait ''n1''], schedulingOptions = None, sendNow = True, userId = ''u1''\<rparr>"

text \<open>Sent now, in New York on 3 November 2024 at 06:30 UTC: 01:30 local time, in the
  hour that the end of daylight saving repeats.\<close>

definition now_request :: sequence_request where
  "now_request =
     \<lparr>sequence = [unaddressed ''n1'', cold ''n2'' ''b@example.com''],
      schedulingOptions = None, sendNow = True, userId = ''u1''\<rparr>"

definition repeated_hour_env :: env where
  "repeated_hour_env = calm_in new_york (\<lambda>k. 1730615400000) (\<lambda>k. 0)"

section \<open>Time arithmetic\<close>










lemma MinFromTime_MakeDate:
  assumes "0 \<le> m" "m \<le> 59"
  shows "MinFromTime (MakeDate d (MakeTime h m 0 0)) = m"
proof -
  have "MakeDate d (MakeTime h m 0 0) = ((d * 24 + h) * 60 + m) * msPerMinute"
    by (simp add: MakeDate_def MakeTime_def msPerDay_def msPerHour_def algebra_simps)
  moreover have "(((d * 24 + h) * 60 + m) * msPerMinute) div msPerMinute = (d * 24 + h) * 60 + m"
    by (simp add: msPerMinute_def)
  moreover have "((d * 24 + h) * 60 + m) mod 60 = m"
  proof -
    have "(m + (d * 24 + h) * 60) mod 60 = m mod 60"
      by (rule mod_mult_self1)
    also have "m mod 60 = m"
      using assms by simp
    finally show ?thesis
      by (simp only: add.commute)
  qed
  ultimately show ?thesis
    by (simp add: MinFromTime_def)
qed






text \<open>A local time is made of its fields; so \<open>setMinutes(getMinutes() + n)\<close> moves the
  local time by \<open>n\<close> minutes before it is read back as an instant.\<close>

lemma time_fields:
  "MakeDate (Day l) (MakeTime (HourFromTime l) (MinFromTime l) (SecFromTime l) (msFromTime l)) = l"
proof -
  have s: "l = (l div 1000) * 1000 + l mod 1000"
    by simp
  have m: "l div 1000 = (l div msPerMinute) * 60 + (l div 1000) mod 60"
  proof -
    have "l div msPerMinute = (l div 1000) div 60"
      by (simp add: msPerMinute_def zdiv_zmult2_eq mult.commute)
    then show ?thesis
      by simp
  qed
  have h: "l div msPerMinute = (l div msPerHour) * 60 + (l div msPerMinute) mod 60"
  proof -
    have "l div msPerHour = (l div msPerMinute) div 60"
      by (simp add: msPerHour_def zdiv_zmult2_eq mult.commute)
    then show ?thesis
      by simp
  qed
  have d: "l div msPerHour = (l div msPerDay) * 24 + (l div msPerHour) mod 24"
  proof -
    have "l div msPerDay = (l div msPerHour) div 24"
      by (simp add: msPerDay_def zdiv_zmult2_eq mult.commute)
    then show ?thesis
      by simp
  qed
  define a h' mi se ms q1 q2 q3 where "a = l div msPerDay" and "h' = (l div msPerHour) mod 24"
    and "mi = (l div msPerMinute) mod 60" and "se = (l div 1000) mod 60" and "ms = l mod 1000"
    and "q1 = l div 1000" and "q2 = l div msPerMinute" and "q3 = l div msPerHour"
  have "l = q1 * 1000 + ms" "q1 = q2 * 60 + se" "q2 = q3 * 60 + mi" "q3 = a * 24 + h'"
    unfolding a_def h'_def mi_def se_def ms_def q1_def q2_def q3_def
    by (rule s, rule m, rule h, rule d)
  then have "a * 86400000 + (h' * 3600000 + mi * 60000 + se * 1000 + ms) = l"
    by linarith
  moreover have "msPerDay = 86400000" "msPerHour = 3600000" "msPerMinute = 60000"
    by (simp_all add: msPerDay_def msPerHour_def msPerMinute_def)
  ultimately have "a * msPerDay + (h' * msPerHour + mi * msPerMinute + se * 1000 + ms) = l"
    by (simp only:)
  then show ?thesis
    by (simp only: MakeDate_def MakeTime_def Day_def HourFromTime_def MinFromTime_def
        SecFromTime_def msFromTime_def a_def h'_def mi_def se_def ms_def)
qed

lemma addMinutes_local: "addMinutes z t n = UTC z (LocalTime z t + n * msPerMinute)"
proof -
  let ?l = "LocalTime z t"
  have "MakeDate (Day ?l)
          (MakeTime (HourFromTime ?l) (MinFromTime ?l + n) (SecFromTime ?l) (msFromTime ?l))
        = MakeDate (Day ?l)
            (MakeTime (HourFromTime ?l) (MinFromTime ?l) (SecFromTime ?l) (msFromTime ?l))
          + n * msPerMinute"
    by (simp add: MakeDate_def MakeTime_def algebra_simps)
  then show ?thesis
    by (simp add: addMinutes_def Let_def time_fields)
qed

section \<open>The job-health monitor: stale leases\<close>

lemma no_locked_jobs:
  "length (filter (\<lambda>j. lockedAt j \<noteq> None) js) = 0 \<Longrightarrow> j \<in> set js \<Longrightarrow> \<not> locked_before b j"
  by (auto simp: locked_before_def filter_empty_conv)

lemma monitor_sweep_map:
  assumes "agenda e" "agendaInitialized e" "connectToDatabase e 0 = None"
  shows "monitor_sweep e now js =
           map (\<lambda>j. if locked_before (now - 5 * msPerMinute) j then j\<lparr>lockedAt := None\<rparr> else j) js"
proof (cases "length (filter (\<lambda>j. lockedAt j \<noteq> None) js) = 0")
  case True
  then have "\<forall>j\<in>set js. \<not> locked_before (now - 5 * msPerMinute) j"
    using no_locked_jobs by blast
  then have "map (\<lambda>j. if locked_before (now - 5 * msPerMinute) j then j\<lparr>lockedAt := None\<rparr> else j) js = js"
    by (simp add: map_idI)
  with True assms show ?thesis
    by (simp add: monitor_sweep_def)
next
  case False
  with assms show ?thesis
    by (simp add: monitor_sweep_def msPerMinute_def Let_def)
qed

text \<open>Claim C8. One run of the monitor sweep (scheduler initialised, store reachable)
  keeps every job in place, sets \<open>lockedAt\<close> to null and changes nothing else on exactly
  the jobs whose \<open>lockedAt\<close> is more than five minutes before the sweep, and leaves every
  other job as it was; so a job locked six minutes ago is unlocked and a job locked four
  minutes ago is untouched.\<close>

theorem monitor_sweep_unlocks_stale:
  assumes "agenda e" and "agendaInitialized e" and "connectToDatabase e 0 = None"
  shows "length (monitor_sweep e now js) = length js \<and>
         (\<forall>i<length js.
            (case lockedAt (js ! i) of
               None \<Rightarrow> monitor_sweep e now js ! i = js ! i
             | Some t \<Rightarrow>
                (t < now - 5 * msPerMinute \<longrightarrow>
                   monitor_sweep e now js ! i = (js ! i)\<lparr>lockedAt := None\<rparr>) \<and>
                (now - 5 * msPerMinute \<le> t \<longrightarrow> monitor_sweep e now js ! i = js ! i) \<and>
                (t = now - 6 * msPerMinute \<longrightarrow> lockedAt (monitor_sweep e now js ! i) = None) \<and>
                (t = now - 4 * msPerMinute \<longrightarrow> monitor_sweep e now js ! i = js ! i)))"
  using monitor_sweep_map [OF assms, of now js]
  by (auto simp: locked_before_def msPerMinute_def split: option.splits)

theorem monitor_sweep_unlocks_stale_witness:
  "agenda (calm (\<lambda>k. 600000) (\<lambda>k. 0)) \<and> agendaInitialized (calm (\<lambda>k. 600000) (\<lambda>k. 0)) \<and>
   connectToDatabase (calm (\<lambda>k. 600000) (\<lambda>k. 0)) 0 = None \<and>
   length (monitor_sweep (calm (\<lambda>k. 600000) (\<lambda>k. 0)) 600000 sample_jobs) = 3 \<and>
   monitor_sweep (calm (\<lambda>k. 600000) (\<lambda>k. 0)) 600000 sample_jobs ! 0 =
     \<lparr>name = ''send email'', data = sample_data, nextRunAt = Some 100000, lockedAt = None\<rparr> \<and>
   monitor_sweep (calm (\<lambda>k. 600000) (\<lambda>k. 0)) 600000 sample_jobs ! 1 = sample_jobs ! 1 \<and>
   monitor_sweep (calm (\<lambda>k. 600000) (\<lambda>k. 0)) 600000 sample_jobs ! 2 = sample_jobs ! 2"
proof -
  let ?e = "calm (\<lambda>k. 600000) (\<lambda>k. 0)"
  have a: "agenda ?e" "agendaInitialized ?e" "connectToDatabase ?e 0 = None"
    by (simp_all add: calm_def)
  show ?thesis
    using a monitor_sweep_unlocks_stale [OF a, of 600000 sample_jobs]
    by (simp add: sample_jobs_def msPerMinute_def All_less_Suc eval_nat_numeral)
qed

section \<open>Scheduling a single email: units\<close>

lemma sendTime_after_other:
  "u \<noteq> Some ''minutes'' \<Longrightarrow> u \<noteq> Some ''hours'' \<Longrightarrow> u \<noteq> Some ''days'' \<Longrightarrow>
   sendTime_after z now d u = now"
  by (simp add: sendTime_after_def)

lemma sendTime_after_zero_minutes:
  "sendTime_after z now 0 (Some ''minutes'') = UTC z (LocalTime z now)"
  by (simp add: sendTime_after_def addMinutes_local)

text \<open>Claim C9. When \<open>unit\<close> is none of \<open>minutes\<close>, \<open>hours\<close>, \<open>days\<close> (or is
  missing), no delay is added: \<open>sendTime\<close> is the clock reading, in every time zone. Where
  the external calls succeed, the handler and the helper report success with that
  \<open>scheduledFor\<close> and store the job. Moreover, when the local reading of the clock is read
  back as the same instant (it is not in an hour repeated by a clock change), they treat
  the request exactly as one with a delay of zero minutes, in every environment.\<close>

theorem unknown_unit_adds_no_delay:
  assumes "unit req \<noteq> Some ''minutes''" and "unit req \<noteq> Some ''hours''"
    and "unit req \<noteq> Some ''days''"
  shows "sendTime_after z now (delay req) (unit req) = now \<and>
         (UTC (LocalTZA e) (LocalTime (LocalTZA e) (clock e 0)) = clock e 0 \<longrightarrow>
            schedule_email e req js =
              schedule_email e (req\<lparr>delay := 0, unit := Some ''minutes''\<rparr>) js \<and>
            scheduleEmail e req js =
              scheduleEmail e (req\<lparr>delay := 0, unit := Some ''minutes''\<rparr>) js) \<and>
         (email_configured e \<and> agenda e \<and> agendaInitialized e \<and>
          connectToDatabase e 0 = None \<and> connectToDatabase e 1 = None \<and>
          (transporter e \<or> initializeTransporter e) \<and> agenda_schedule e 0 = None \<and> findOne e
          \<longrightarrow> schedule_email e req js =
                (Json 200 (EmailScheduled ''Email scheduled successfully'' (clock e 0)),
                 js @ [new_job (clock e 0) ''send email'' (request_job_data req)])) \<and>
         (agenda e \<and> agendaInitialized e \<and> connectToDatabase e 0 = None \<and>
          agenda_schedule e 0 = None
          \<longrightarrow> scheduleEmail e req js =
                (Inr (clock e 0, False),
                 js @ [new_job (clock e 0) ''send email'' (request_job_data req)]))"
proof -
  have t: "sendTime_after (LocalTZA e) (clock e 0) (delay req) (unit req) = clock e 0"
    using assms by (rule sendTime_after_other)
  have d: "request_job_data (req\<lparr>delay := 0, unit := Some ''minutes''\<rparr>) = request_job_data req"
    by (simp add: request_job_data_def)
  have 1: "sendTime_after z now (delay req) (unit req) = now"
    using assms by (rule sendTime_after_other)
  have 2: "schedule_email e req js = schedule_email e (req\<lparr>delay := 0, unit := Some ''minutes''\<rparr>) js"
    if "UTC (LocalTZA e) (LocalTime (LocalTZA e) (clock e 0)) = clock e 0"
    using that
    by (simp add: schedule_email_def t d sendTime_after_zero_minutes Let_def split: prelude.splits)
  have 3: "scheduleEmail e req js = scheduleEmail e (req\<lparr>delay := 0, unit := Some ''minutes''\<rparr>) js"
    if "UTC (LocalTZA e) (LocalTime (LocalTZA e) (clock e 0)) = clock e 0"
    using that
    by (simp add: scheduleEmail_def t d sendTime_after_zero_minutes Let_def split: prelude.splits)
  have 4: "schedule_email e req js =
             (Json 200 (EmailScheduled ''Email scheduled successfully'' (clock e 0)),
              js @ [new_job (clock e 0) ''send email'' (request_job_data req)])"
    if "email_configured e \<and> agenda e \<and> agendaInitialized e \<and>
        connectToDatabase e 0 = None \<and> connectToDatabase e 1 = None \<and>
        (transporter e \<or> initializeTransporter e) \<and> agenda_schedule e 0 = None \<and> findOne e"
    using that by (auto simp: schedule_email_def ensure_agenda_def schedule_email_try_def t Let_def)
  have 5: "scheduleEmail e req js =
             (Inr (clock e 0, False),
              js @ [new_job (clock e 0) ''send email'' (request_job_data req)])"
    if "agenda e \<and> agendaInitialized e \<and> connectToDatabase e 0 = None \<and>
        agenda_schedule e 0 = None"
    using that by (simp add: scheduleEmail_def ensure_agenda_def t Let_def)
  from 1 2 3 4 5 show ?thesis by blast
qed

theorem unknown_unit_adds_no_delay_witness:
  "unit weekly_request \<noteq> Some ''minutes'' \<and> unit weekly_request \<noteq> Some ''hours'' \<and>
   unit weekly_request \<noteq> Some ''days'' \<and>
   UTC (LocalTZA (calm (\<lambda>k. 1000) (\<lambda>k. 0)))
     (LocalTime (LocalTZA (calm (\<lambda>k. 1000) (\<lambda>k. 0))) (clock (calm (\<lambda>k. 1000) (\<lambda>k. 0)) 0)) =
     clock (calm (\<lambda>k. 1000) (\<lambda>k. 0)) 0 \<and>
   sendTime_after new_york 1000 (delay weekly_request) (unit weekly_request) = 1000 \<and>
   schedule_email (calm (\<lambda>k. 1000) (\<lambda>k. 0)) weekly_request [] =
     schedule_email (calm (\<lambda>k. 1000) (\<lambda>k. 0))
       (weekly_request\<lparr>delay := 0, unit := Some ''minutes''\<rparr>) [] \<and>
   scheduleEmail (calm (\<lambda>k. 1000) (\<lambda>k. 0)) weekly_request [] =
     scheduleEmail (calm (\<lambda>k. 1000) (\<lambda>k. 0))
       (weekly_request\<lparr>delay := 0, unit := Some ''minutes''\<rparr>) [] \<and>
   schedule_email (calm (\<lambda>k. 1000) (\<lambda>k. 0)) weekly_request [] =
     (Json 200 (EmailScheduled ''Email scheduled successfully'' 1000),
      [new_job 1000 ''send email'' (request_job_data weekly_request)]) \<and>
   scheduleEmail (calm (\<lambda>k. 1000) (\<lambda>k. 0)) weekly_request [] =
     (Inr (1000, False), [new_job 1000 ''send email'' (request_job_data weekly_request)])"
proof -
  let ?e = "calm (\<lambda>k. 1000) (\<lambda>k. 0)"
  have u: "unit weekly_request \<noteq> Some ''minutes''" "unit weekly_request \<noteq> Some ''hours''"
    "unit weekly_request \<noteq> Some ''days''"
    by (simp_all add: weekly_request_def)
  note th = unknown_unit_adds_no_delay [OF u, of new_york 1000 ?e "[]"]
  have h: "email_configured ?e \<and> agenda ?e \<and> agendaInitialized ?e \<and>
           connectToDatabase ?e 0 = None \<and> connectToDatabase ?e 1 = None \<and>
           (transporter ?e \<or> initializeTransporter ?e) \<and> agenda_schedule ?e 0 = None \<and> findOne ?e"
    by (simp add: calm_def)
  have c: "clock ?e 0 = 1000"
    by (simp add: calm_def)
  have g: "UTC (LocalTZA ?e) (LocalTime (LocalTZA ?e) (clock ?e 0)) = clock ?e 0"
    by (simp add: calm_def utc_def UTC_def LocalTime_def)
  have 1: "sendTime_after new_york 1000 (delay weekly_request) (unit weekly_request) = 1000"
    using th by blast
  have 2: "schedule_email ?e weekly_request [] =
             schedule_email ?e (weekly_request\<lparr>delay := 0, unit := Some ''minutes''\<rparr>) []"
    using th g by blast
  have 3: "scheduleEmail ?e weekly_request [] =
             scheduleEmail ?e (weekly_request\<lparr>delay := 0, unit := Some ''minutes''\<rparr>) []"
    using th g by blast
  have 4: "schedule_email ?e weekly_request [] =
             (Json 200 (EmailScheduled ''Email scheduled successfully'' (clock ?e 0)),
              [] @ [new_job (clock ?e 0) ''send email'' (request_job_data weekly_request)])"
    using th h by blast
  have 5: "scheduleEmail ?e weekly_request [] =
             (Inr (clock ?e 0, False),
              [] @ [new_job (clock ?e 0) ''send email'' (request_job_data weekly_request)])"
    using th h by blast
  have r4: "schedule_email ?e weekly_request [] =
             (Json 200 (EmailScheduled ''Email scheduled successfully'' 1000),
              [new_job 1000 ''send email'' (request_job_data weekly_request)])"
    using 4 by (simp only: c append_Nil)
  have r5: "scheduleEmail ?e weekly_request [] =
             (Inr (1000, False), [new_job 1000 ''send email'' (request_job_data weekly_request)])"
    using 5 by (simp only: c append_Nil)
  from u g 1 2 3 r4 r5 show ?thesis
    by blast
qed

section \<open>Deferred mode: what the loops leave behind\<close>

lemma advance_0: "advance z 0 t = t"
  by (simp add: advance_def)

lemma advance_Suc: "advance z (Suc n) t = addDays z (advance z n t) 1"
  by (simp add: advance_def)

lemma advance_addDays: "advance z n (addDays z t 1) = advance z (Suc n) t"
  unfolding advance_def by (induction n) simp_all

text \<open>What one run of the day search leaves behind when it returns: either nothing but
  a moved cursor, or one entry and one job for a valid day that the cursor reached, with
  the cursor moved once more.\<close>

lemma valid_day_search_Inr:
  assumes "valid_day_search e uid sd fh th it k st = Inr st'"
  shows "(\<exists>n. currentDate st' = advance (LocalTZA e) n (currentDate st) \<and>
              scheduledEmails st' = scheduledEmails st \<and> jobs st' = jobs st) \<or>
         (\<exists>n d i j sendTime.
              item_data it = Some d \<and>
              Some (getDay (LocalTZA e) (advance (LocalTZA e) n (currentDate st))) \<in> set sd \<and>
              sendTime = setHours (LocalTZA e) (advance (LocalTZA e) n (currentDate st))
                           (random_floor (Math_random e i) (th - fh + 1) + fh)
                           (random_floor (Math_random e j) 60) \<and>
              scheduledEmails st' = scheduledEmails st @ [deferred_entry d sendTime] \<and>
              jobs st' = jobs st @ [new_job sendTime ''send email'' (deferred_job_data uid d)] \<and>
              currentDate st' = advance (LocalTZA e) (Suc n) (currentDate st))"
  using assms
proof (induction e uid sd fh th it k st rule: valid_day_search.induct)
  case (1 e uid sd fh th it k st)
  let ?z = "LocalTZA e"
  show ?case
  proof (cases "k < 14")
    case False
    with "1.prems" have "st' = st"
      by (simp add: valid_day_search.simps)
    then have "currentDate st' = advance ?z 0 (currentDate st) \<and>
               scheduledEmails st' = scheduledEmails st \<and> jobs st' = jobs st"
      by (simp add: advance_0)
    then show ?thesis by blast
  next
    case lt: True
    show ?thesis
    proof (cases "Some (getDay ?z (currentDate st)) \<in> set sd")
      case valid: True
      let ?sendTime = "setHours ?z (currentDate st)
                         (random_floor (Math_random e (draws st)) (th - fh + 1) + fh)
                         (random_floor (Math_random e (draws st + 1)) 60)"
      show ?thesis
      proof (cases "?sendTime > clock e (reads st)")
        case False
        with lt valid "1.prems"
        have "st' = st\<lparr>draws := draws st + 2, reads := reads st + 1\<rparr>"
          by (simp add: valid_day_search.simps Let_def)
        then have "currentDate st' = advance ?z 0 (currentDate st) \<and>
                   scheduledEmails st' = scheduledEmails st \<and> jobs st' = jobs st"
          by (simp add: advance_0)
        then show ?thesis by blast
      next
        case future: True
        with lt valid "1.prems" obtain d where d: "item_data it = Some d"
          and st': "st' = st\<lparr>draws := draws st + 2, reads := reads st + 1, calls := calls st + 1,
                     jobs := jobs st @ [new_job ?sendTime ''send email'' (deferred_job_data uid d)],
                     scheduledEmails := scheduledEmails st @ [deferred_entry d ?sendTime],
                     currentDate := addDays ?z (currentDate st) 1\<rparr>"
          by (auto simp: valid_day_search.simps Let_def split: option.splits)
        have "item_data it = Some d \<and>
              Some (getDay ?z (advance ?z 0 (currentDate st))) \<in> set sd \<and>
              ?sendTime = setHours ?z (advance ?z 0 (currentDate st))
                           (random_floor (Math_random e (draws st)) (th - fh + 1) + fh)
                           (random_floor (Math_random e (draws st + 1)) 60) \<and>
              scheduledEmails st' = scheduledEmails st @ [deferred_entry d ?sendTime] \<and>
              jobs st' = jobs st @ [new_job ?sendTime ''send email'' (deferred_job_data uid d)] \<and>
              currentDate st' = advance ?z (Suc 0) (currentDate st)"
          using d valid by (simp add: st' advance_0 advance_Suc)
        then show ?thesis by blast
      qed
    next
      case invalid: False
      let ?next = "st\<lparr>currentDate := addDays ?z (currentDate st) 1\<rparr>"
      from lt invalid "1.prems"
      have run: "valid_day_search e uid sd fh th it (k + 1) ?next = Inr st'"
        by (simp add: valid_day_search.simps [of e uid sd fh th it k st] Let_def)
      from "1.IH" [OF lt refl invalid run]
      show ?thesis
      proof
        assume "\<exists>n. currentDate st' = advance ?z n (currentDate ?next) \<and>
              scheduledEmails st' = scheduledEmails ?next \<and> jobs st' = jobs ?next"
        then obtain n where "currentDate st' = advance ?z (Suc n) (currentDate st) \<and>
              scheduledEmails st' = scheduledEmails st \<and> jobs st' = jobs st"
          by (auto simp: advance_addDays)
        then show ?thesis by blast
      next
        assume "\<exists>n d i j sendTime.
              item_data it = Some d \<and>
              Some (getDay ?z (advance ?z n (currentDate ?next))) \<in> set sd \<and>
              sendTime = setHours ?z (advance ?z n (currentDate ?next))
                           (random_floor (Math_random e i) (th - fh + 1) + fh)
                           (random_floor (Math_random e j) 60) \<and>
              scheduledEmails st' = scheduledEmails ?next @ [deferred_entry d sendTime] \<and>
              jobs st' = jobs ?next @ [new_job sendTime ''send email'' (deferred_job_data uid d)] \<and>
              currentDate st' = advance ?z (Suc n) (currentDate ?next)"
        then obtain n d i j sendTime where
          "item_data it = Some d \<and>
              Some (getDay ?z (advance ?z (Suc n) (currentDate st))) \<in> set sd \<and>
              sendTime = setHours ?z (advance ?z (Suc n) (currentDate st))
                           (random_floor (Math_random e i) (th - fh + 1) + fh)
                           (random_floor (Math_random e j) 60) \<and>
              scheduledEmails st' = scheduledEmails st @ [deferred_entry d sendTime] \<and>
              jobs st' = jobs st @ [new_job sendTime ''send email'' (deferred_job_data uid d)] \<and>
              currentDate st' = advance ?z (Suc (Suc n)) (currentDate st)"
          by (auto simp: advance_addDays)
        then show ?thesis by blast
      qed
    qed
  qed
qed






lemma schedule_items_invariant:
  assumes "schedule_items e uid sd fh th items st = Inr st'" and "P st"
    and "\<And>it s s'. valid_day_search e uid sd fh th it 0 s = Inr s' \<Longrightarrow> P s \<Longrightarrow> P s'"
  shows "P st'"
  using assms(1,2)
proof (induction items arbitrary: st)
  case Nil
  then show ?case by simp
next
  case (Cons it rest)
  show ?case
  proof (cases "item_type it = ''coldEmail''")
    case False
    with Cons.prems(1) have "schedule_items e uid sd fh th rest st = Inr st'"
      by simp
    from Cons.IH [OF this Cons.prems(2)] show ?thesis .
  next
    case True
    with Cons.prems(1) obtain st1 where
      one: "valid_day_search e uid sd fh th it 0 st = Inr st1" and
      more: "schedule_items e uid sd fh th rest st1 = Inr st'"
      by (auto split: sum.splits)
    from Cons.IH [OF more assms(3) [OF one Cons.prems(2)]] show ?thesis .
  qed
qed




text \<open>Each job added to the store goes with an entry added to the response.\<close>

lemma valid_day_search_jobs:
  assumes "valid_day_search e uid sd fh th it k st = Inr st'"
    and "\<exists>new. jobs st = js @ new \<and> map job_key new = map entry_job_key (scheduledEmails st)"
  shows "\<exists>new. jobs st' = js @ new \<and> map job_key new = map entry_job_key (scheduledEmails st')"
  using valid_day_search_Inr [OF assms(1)] assms(2)
  by (auto simp: job_key_def entry_job_key_def new_job_def deferred_job_data_def
      deferred_entry_def)

lemma schedule_items_jobs:
  assumes "schedule_items e uid sd fh th items st = Inr st'"
    and "\<exists>new. jobs st = js @ new \<and> map job_key new = map entry_job_key (scheduledEmails st)"
  shows "\<exists>new. jobs st' = js @ new \<and> map job_key new = map entry_job_key (scheduledEmails st')"
  using assms(1,2)
  by (rule schedule_items_invariant
        [where P = "\<lambda>s. \<exists>new. jobs s = js @ new \<and>
                            map job_key new = map entry_job_key (scheduledEmails s)"])
     (rule valid_day_search_jobs)





section \<open>Deferred mode: dates, window and weekdays\<close>

















section \<open>Deferred mode: a draw in the past\<close>

text \<open>The search passes over days that are not allowed, one per iteration.\<close>

lemma valid_day_search_skip:
  assumes "k + n \<le> 14"
    and "\<forall>j<n. Some (getDay (LocalTZA e) (advance (LocalTZA e) j (currentDate st))) \<notin> set sd"
  shows "valid_day_search e uid sd fh th it k st =
           valid_day_search e uid sd fh th it (k + n)
             (st\<lparr>currentDate := advance (LocalTZA e) n (currentDate st)\<rparr>)"
  using assms
proof (induction n arbitrary: k st)
  case 0
  then show ?case
    by (simp add: advance_0)
next
  case (Suc n)
  let ?z = "LocalTZA e"
  let ?next = "st\<lparr>currentDate := addDays ?z (currentDate st) 1\<rparr>"
  from Suc.prems have lt: "k < 14" and first: "Some (getDay ?z (currentDate st)) \<notin> set sd"
    by (auto simp: advance_0 dest: spec [of _ 0])
  have rest: "\<forall>j<n. Some (getDay ?z (advance ?z j (currentDate ?next))) \<notin> set sd"
  proof (intro allI impI)
    fix j assume "j < n"
    then have "Suc j < Suc n"
      by simp
    with Suc.prems(2) have "Some (getDay ?z (advance ?z (Suc j) (currentDate st))) \<notin> set sd"
      by blast
    then show "Some (getDay ?z (advance ?z j (currentDate ?next))) \<notin> set sd"
      by (simp add: advance_addDays)
  qed
  have "valid_day_search e uid sd fh th it k st =
          valid_day_search e uid sd fh th it (k + 1) ?next"
    using lt first by (simp add: valid_day_search.simps [of e uid sd fh th it k st] Let_def)
  also have "\<dots> = valid_day_search e uid sd fh th it (k + 1 + n)
                     (?next\<lparr>currentDate := advance ?z n (currentDate ?next)\<rparr>)"
    using Suc.prems(1) by (intro Suc.IH rest) simp
  finally show ?case
    by (simp add: advance_addDays)
qed

lemma valid_day_search_past:
  assumes "k < 14" and "Some (getDay (LocalTZA e) (currentDate st)) \<in> set sd"
    and "setHours (LocalTZA e) (currentDate st)
           (random_floor (Math_random e (draws st)) (th - fh + 1) + fh)
           (random_floor (Math_random e (draws st + 1)) 60) \<le> clock e (reads st)"
  shows "valid_day_search e uid sd fh th it k st =
           Inr (st\<lparr>draws := draws st + 2, reads := reads st + 1\<rparr>)"
  using assms by (simp add: valid_day_search.simps [of e uid sd fh th it k st] Let_def)

lemma valid_day_search_no_data:
  assumes "k < 14" and "Some (getDay (LocalTZA e) (currentDate st)) \<in> set sd"
    and "clock e (reads st) < setHours (LocalTZA e) (currentDate st)
           (random_floor (Math_random e (draws st)) (th - fh + 1) + fh)
           (random_floor (Math_random e (draws st + 1)) 60)"
    and "item_data it = None"
  shows "valid_day_search e uid sd fh th it k st = Inl (TypeError, jobs st)"
  using assms by (simp add: valid_day_search.simps [of e uid sd fh th it k st] Let_def)

text \<open>Claim C2. As stated the claim fails in its second half: the cursor is advanced only
  inside the branch that schedules (see the counterexample below). What holds: when the
  first allowed day is found within the 14 days searched and the drawn send time is not
  later than the clock reading, the item is dropped (no entry, no job) and the cursor
  stays on that day; the next item is processed from there.\<close>

theorem past_draw_keeps_cursor:
  assumes "item_type it = ''coldEmail''"
    and "n < 14"
    and "\<forall>j<n. Some (getDay (LocalTZA e) (advance (LocalTZA e) j (currentDate st))) \<notin> set sd"
    and "Some (getDay (LocalTZA e) (advance (LocalTZA e) n (currentDate st))) \<in> set sd"
    and "setHours (LocalTZA e) (advance (LocalTZA e) n (currentDate st))
           (random_floor (Math_random e (draws st)) (th - fh + 1) + fh)
           (random_floor (Math_random e (draws st + 1)) 60) \<le> clock e (reads st)"
  shows "valid_day_search e uid sd fh th it 0 st =
           Inr (st\<lparr>currentDate := advance (LocalTZA e) n (currentDate st),
                   draws := draws st + 2, reads := reads st + 1\<rparr>) \<and>
         schedule_items e uid sd fh th (it # rest) st =
           schedule_items e uid sd fh th rest
             (st\<lparr>currentDate := advance (LocalTZA e) n (currentDate st),
                 draws := draws st + 2, reads := reads st + 1\<rparr>)"
proof -
  let ?found = "st\<lparr>currentDate := advance (LocalTZA e) n (currentDate st)\<rparr>"
  have "valid_day_search e uid sd fh th it 0 st = valid_day_search e uid sd fh th it (0 + n) ?found"
    using assms(2,3) by (intro valid_day_search_skip) simp_all
  also have "\<dots> = Inr (?found\<lparr>draws := draws ?found + 2, reads := reads ?found + 1\<rparr>)"
    using assms(2,4,5) by (intro valid_day_search_past) simp_all
  finally have one: "valid_day_search e uid sd fh th it 0 st =
           Inr (st\<lparr>currentDate := advance (LocalTZA e) n (currentDate st),
                   draws := draws st + 2, reads := reads st + 1\<rparr>)"
    by simp
  with assms(1) show ?thesis
    by simp
qed

theorem past_draw_keeps_cursor_witness:
  "valid_day_search noon_env ''u1'' weekdays 9 17 (cold ''n1'' ''a@example.com'') 0 weekend_state =
     Inr (weekend_state\<lparr>currentDate := monday, draws := 2, reads := 2\<rparr>)"
proof -
  let ?z = "LocalTZA noon_env"
  have a: "item_type (cold ''n1'' ''a@example.com'') = ''coldEmail''"
    by (simp add: cold_def)
  have b: "(2::nat) < 14"
    by simp
  have c0: "Some (getDay ?z (advance ?z 0 (currentDate weekend_state))) \<notin> set weekdays"
    and c1: "Some (getDay ?z (advance ?z 1 (currentDate weekend_state))) \<notin> set weekdays"
    by code_simp+
  have c: "\<forall>j<(2::nat). Some (getDay ?z (advance ?z j (currentDate weekend_state))) \<notin> set weekdays"
  proof (intro allI impI)
    fix j :: nat assume "j < 2"
    then have "j = 0 \<or> j = 1"
      by auto
    with c0 c1 show "Some (getDay ?z (advance ?z j (currentDate weekend_state))) \<notin> set weekdays"
      by auto
  qed
  have d: "Some (getDay ?z (advance ?z 2 (currentDate weekend_state))) \<in> set weekdays"
    by code_simp
  have f: "setHours ?z (advance ?z 2 (currentDate weekend_state))
           (random_floor (Math_random noon_env (draws weekend_state)) (17 - 9 + 1) + 9)
           (random_floor (Math_random noon_env (draws weekend_state + 1)) 60)
             \<le> clock noon_env (reads weekend_state)"
    by code_simp
  have g: "advance ?z 2 (currentDate weekend_state) = monday" "draws weekend_state + 2 = 2"
    "reads weekend_state + 1 = 2"
    by code_simp+
  from past_draw_keeps_cursor [OF a b c d f, THEN conjunct1] show ?thesis
    by (simp only: g)
qed

text \<open>Monday at noon, start date the same Monday, default window: the first item
  draws 09:00 and is dropped; the cursor is still Monday afterwards, and the second item
  (13:30) is scheduled on that Monday.\<close>

theorem past_draw_counterexample:
  "Some (getDay utc (currentDate noon_state)) \<in> set weekdays \<and>
   setHours utc (currentDate noon_state) 9 0 \<le> clock noon_env (reads noon_state) \<and>
   valid_day_search noon_env ''u1'' weekdays 9 17 (cold ''n1'' ''a@example.com'') 0 noon_state =
     Inr (noon_state\<lparr>draws := 2, reads := 2\<rparr>) \<and>
   currentDate (noon_state\<lparr>draws := 2, reads := 2\<rparr>) \<noteq> addDays utc (currentDate noon_state) 1 \<and>
   fst (schedule_sequence noon_env noon_request []) =
     Json 200 (SequenceScheduled ''Sequence scheduled successfully''
       [\<lparr>email = Some ''b@example.com'', entry_subject = Some ''Hello'',
         scheduledFor = monday + 13 * msPerHour + 30 * msPerMinute\<rparr>]
       \<lparr>startDate = monday, fromTime = 9, toTime = 17, days = work_days\<rparr>) \<and>
   Day (LocalTime utc (monday + 13 * msPerHour + 30 * msPerMinute)) = Day (LocalTime utc monday)"
  by code_simp

section \<open>Deferred mode: items without data or without a recipient\<close>

lemma schedule_items_append:
  "schedule_items e uid sd fh th (xs @ ys) st =
     (case schedule_items e uid sd fh th xs st of
        Inl err \<Rightarrow> Inl err
      | Inr st' \<Rightarrow> schedule_items e uid sd fh th ys st')"
  by (induction xs arbitrary: st) (auto split: sum.splits)

text \<open>Claim C10. As stated the claim fails: the recipient of an item is read only once a
  valid day is found and the drawn time is in the future (see the counterexample below).
  What holds: when a \<open>coldEmail\<close> item without \<open>data\<close> reaches that point, the request
  fails with status 500 and \<open>Failed to schedule sequence\<close>, and the store keeps one job
  for each entry scheduled for the earlier items.\<close>

theorem missing_data_fails_midway:
  assumes "\<not> sendNow req" and "ensure_agenda e = Available k"
    and "opts = normalize_options (clock e 0) (schedulingOptions req)"
    and "sequence req = pre @ it # post"
    and "schedule_items e (userId req) (scheduleDays_of (days opts)) (fromTime opts) (toTime opts)
           pre ((initial_state jobs0 k)\<lparr>currentDate := startDate opts, reads := 1\<rparr>) = Inr st"
    and "item_type it = ''coldEmail''" and "item_data it = None"
    and "n < 14"
    and "\<forall>j<n. Some (getDay (LocalTZA e) (advance (LocalTZA e) j (currentDate st)))
                  \<notin> set (scheduleDays_of (days opts))"
    and "Some (getDay (LocalTZA e) (advance (LocalTZA e) n (currentDate st)))
           \<in> set (scheduleDays_of (days opts))"
    and "clock e (reads st) <
           setHours (LocalTZA e) (advance (LocalTZA e) n (currentDate st))
             (random_floor (Math_random e (draws st)) (toTime opts - fromTime opts + 1)
                + fromTime opts)
             (random_floor (Math_random e (draws st + 1)) 60)"
  shows "schedule_sequence e req jobs0 = (Json 500 (Error ''Failed to schedule sequence''), jobs st) \<and>
         (\<exists>new. jobs st = jobs0 @ new \<and> map job_key new = map entry_job_key (scheduledEmails st))"
proof -
  let ?sd = "scheduleDays_of (days opts)"
  let ?init = "(initial_state jobs0 k)\<lparr>currentDate := startDate opts, reads := 1\<rparr>"
  let ?found = "st\<lparr>currentDate := advance (LocalTZA e) n (currentDate st)\<rparr>"
  have "valid_day_search e (userId req) ?sd (fromTime opts) (toTime opts) it 0 st =
          valid_day_search e (userId req) ?sd (fromTime opts) (toTime opts) it (0 + n) ?found"
    using assms(8,9) by (intro valid_day_search_skip) simp_all
  also have "\<dots> = Inl (TypeError, jobs ?found)"
    using assms(7,8,10,11) by (intro valid_day_search_no_data) simp_all
  finally have thrown: "valid_day_search e (userId req) ?sd (fromTime opts) (toTime opts) it 0 st =
                          Inl (TypeError, jobs st)"
    by simp
  have "schedule_items e (userId req) ?sd (fromTime opts) (toTime opts) (sequence req) ?init =
          Inl (TypeError, jobs st)"
    using assms(5,6) thrown by (simp add: assms(4) schedule_items_append)
  then have "schedule_sequence e req jobs0 = (failed_to_schedule, jobs st)"
    using assms(1,2) by (simp add: schedule_sequence_def Let_def assms(3) [symmetric])
  moreover have "\<exists>new. jobs ?init = jobs0 @ new \<and>
                   map job_key new = map entry_job_key (scheduledEmails ?init)"
    by (simp add: initial_state_def)
  from schedule_items_jobs [OF assms(5) this]
  have "\<exists>new. jobs st = jobs0 @ new \<and> map job_key new = map entry_job_key (scheduledEmails st)" .
  ultimately show ?thesis
    by (simp add: failed_to_schedule_def)
qed

theorem missing_data_fails_midway_witness:
  "schedule_sequence (calm (\<lambda>k. 0) (\<lambda>k. 1 / 2)) broken_request [] =
     (Json 500 (Error ''Failed to schedule sequence''), [first_job])"
proof -
  let ?e = "calm (\<lambda>k. 0) (\<lambda>k. 1 / 2)"
  let ?z = "LocalTZA ?e"
  have a1: "\<not> sendNow broken_request"
    by (simp add: broken_request_def deferred_request_def)
  have a2: "ensure_agenda ?e = Available 0"
    by (simp add: ensure_agenda_def calm_def)
  have a3: "default_options = normalize_options (clock ?e 0) (schedulingOptions broken_request)"
    by code_simp
  have a4: "sequence broken_request =
              [cold ''n1'' ''a@example.com''] @ no_data ''n2'' # [cold ''n3'' ''c@example.com'']"
    by (simp add: broken_request_def deferred_request_def)
  have a5: "schedule_items ?e (userId broken_request) (scheduleDays_of (days default_options))
              (fromTime default_options) (toTime default_options) [cold ''n1'' ''a@example.com'']
              ((initial_state [] 0)\<lparr>currentDate := startDate default_options, reads := 1\<rparr>)
            = Inr after_first"
    by code_simp
  have a6: "item_type (no_data ''n2'') = ''coldEmail''" and a7: "item_data (no_data ''n2'') = None"
    by (simp_all add: no_data_def)
  have a8: "(0::nat) < 14"
    by simp
  have a9: "\<forall>j<(0::nat). Some (getDay ?z (advance ?z j (currentDate after_first)))
              \<notin> set (scheduleDays_of (days default_options))"
    by simp
  have a10: "Some (getDay ?z (advance ?z 0 (currentDate after_first)))
               \<in> set (scheduleDays_of (days default_options))"
    by code_simp
  have a11: "clock ?e (reads after_first) <
           setHours ?z (advance ?z 0 (currentDate after_first))
             (random_floor (Math_random ?e (draws after_first))
                (toTime default_options - fromTime default_options + 1)
                + fromTime default_options)
             (random_floor (Math_random ?e (draws after_first + 1)) 60)"
    by code_simp
  have j: "jobs after_first = [first_job]"
    by (simp add: after_first_def)
  from missing_data_fails_midway [OF a1 a2 a3 a4 a5 a6 a7 a8 a9 a10 a11, THEN conjunct1]
  show ?thesis
    by (simp only: j)
qed

text \<open>Monday at 18:00 with the default options: the only item has no \<open>data\<close>, its
  draw (13:30) lies in the past, and the request is answered with status 200 and an empty
  list.\<close>

theorem missing_data_counterexample:
  "\<not> sendNow evening_request \<and>
   item_type (hd (sequence evening_request)) = ''coldEmail'' \<and>
   item_data (hd (sequence evening_request)) = None \<and>
   schedule_sequence (calm (\<lambda>k. monday + 18 * msPerHour) (\<lambda>k. 1 / 2)) evening_request [] =
     (Json 200 (SequenceScheduled ''Sequence scheduled successfully'' []
        \<lparr>startDate = monday + 18 * msPerHour, fromTime = 9, toTime = 17, days = work_days\<rparr>), [])"
  by code_simp

text \<open>Claim C3. The claim says that deferred mode silently skips a \<open>coldEmail\<close> item
  without a recipient, while immediate mode records it as a missing-recipient skip. The
  deferred-mode loop never looks at the recipient: for the request below it stores a job
  without \<open>to\<close> and returns an entry without \<open>email\<close>. Immediate mode, on the same
  sequence, schedules nothing and rejects the request for its missing recipients.\<close>

theorem missing_recipient_is_scheduled:
  "schedule_sequence (calm (\<lambda>k. 0) (\<lambda>k. 1 / 2)) anonymous_request [] =
     (Json 200 (SequenceScheduled ''Sequence scheduled successfully''
        [\<lparr>email = None, entry_subject = Some ''Hello'', scheduledFor = 394200000\<rparr>]
        \<lparr>startDate = monday, fromTime = 9, toTime = 17, days = work_days\<rparr>),
      [\<lparr>name = ''send email'',
        data = \<lparr>job_to = None, job_subject = Some ''Hello'', job_body = Some ''Hi'',
                job_userId = ''u1''\<rparr>,
        nextRunAt = Some 394200000, lockedAt = None\<rparr>]) \<and>
   schedule_sequence (calm (\<lambda>k. 0) (\<lambda>k. 1 / 2)) (anonymous_request\<lparr>sendNow := True\<rparr>) [] =
     (Json 400 (ErrorMessage no_recipients_message ''Failed to send emails''), [])"
  by code_simp

section \<open>Immediate mode\<close>

text \<open>An item that immediate mode schedules: none in the sequence.\<close>

lemma send_item_not_eligible:
  assumes "\<not> eligible it"
  shows "send_item e uid it st =
           Inr (if item_type it = ''coldEmail'' then st\<lparr>hasMissingRecipients := True\<rparr> else st)"
  using assms by (auto simp: send_item_def eligible_def split: option.splits)

lemma send_items_none_eligible:
  assumes "\<forall>it\<in>set items. \<not> eligible it"
  shows "send_items e uid items st =
           Inr (st\<lparr>hasMissingRecipients := hasMissingRecipients st \<or> coldEmails items \<noteq> []\<rparr>)"
  using assms
proof (induction items arbitrary: st)
  case Nil
  then show ?case
    by (simp add: coldEmails_def)
next
  case (Cons it rest)
  then have it: "\<not> eligible it" and rest: "\<forall>it\<in>set rest. \<not> eligible it"
    by simp_all
  show ?case
    by (simp add: send_item_not_eligible [OF it] Cons.IH [OF rest] coldEmails_def)
qed

lemma ensure_agenda_Available:
  assumes "agenda e \<and> agendaInitialized e \<or> initializeAgenda e 0 = None"
  shows "\<exists>k. ensure_agenda e = Available k"
  using assms by (auto simp: ensure_agenda_def)

text \<open>Claim C6. An immediate-mode request in which no item is eligible (a \<open>coldEmail\<close>
  item with a recipient), handled with the scheduler available and the database
  reachable, is answered with status 400 and leaves the store as it was; the error text is
  one message when some \<open>coldEmail\<close> item was skipped for its missing recipient and
  another, different one when the sequence has no \<open>coldEmail\<close> item at all.\<close>

theorem no_eligible_items_rejected:
  assumes "sendNow req"
    and "agenda e \<and> agendaInitialized e \<or> initializeAgenda e 0 = None"
    and "connectToDatabase e 0 = None"
    and "\<forall>it\<in>set (sequence req). \<not> eligible it"
  shows "schedule_sequence e req jobs0 =
           (Json 400 (ErrorMessage
              (if coldEmails (sequence req) \<noteq> [] then no_recipients_message
               else no_email_nodes_message)
              ''Failed to send emails''), jobs0) \<and>
         no_recipients_message \<noteq> no_email_nodes_message"
proof -
  from ensure_agenda_Available [OF assms(2)] obtain k where k: "ensure_agenda e = Available k"
    by blast
  have "schedule_sequence e req jobs0 =
           (Json 400 (ErrorMessage
              (if coldEmails (sequence req) \<noteq> [] then no_recipients_message
               else no_email_nodes_message)
              ''Failed to send emails''), jobs0)"
    using assms(1,3)
    by (simp add: schedule_sequence_def k send_items_none_eligible [OF assms(4)]
        initial_state_def)
  moreover have "no_recipients_message \<noteq> no_email_nodes_message"
    by (simp add: no_recipients_message_def no_email_nodes_message_def)
  ultimately show ?thesis by blast
qed

theorem no_eligible_items_rejected_witness:
  "schedule_sequence (calm (\<lambda>k. 0) (\<lambda>k. 0)) (anonymous_request\<lparr>sendNow := True\<rparr>) [] =
     (Json 400 (ErrorMessage no_recipients_message ''Failed to send emails''), []) \<and>
   schedule_sequence (calm (\<lambda>k. 0) (\<lambda>k. 0)) delays_only_request [] =
     (Json 400 (ErrorMessage no_email_nodes_message ''Failed to send emails''), [])"
proof -
  let ?e = "calm (\<lambda>k. 0) (\<lambda>k. 0)"
  let ?r = "anonymous_request\<lparr>sendNow := True\<rparr>"
  have e1: "agenda ?e \<and> agendaInitialized ?e \<or> initializeAgenda ?e 0 = None"
    and e2: "connectToDatabase ?e 0 = None"
    by (simp_all add: calm_def)
  have r1: "sendNow ?r" and r2: "\<forall>it\<in>set (sequence ?r). \<not> eligible it"
    and r3: "coldEmails (sequence anonymous_request) \<noteq> []"
    by (simp_all add: anonymous_request_def deferred_request_def unaddressed_def eligible_def
        truthy_def coldEmails_def)
  have d1: "sendNow delays_only_request"
    and d2: "\<forall>it\<in>set (sequence delays_only_request). \<not> eligible it"
    and d3: "coldEmails (sequence delays_only_request) = []"
    by (simp_all add: delays_only_request_def eligible_def wait_def coldEmails_def)
  from no_eligible_items_rejected [OF r1 e1 e2 r2, of "[]"]
    no_eligible_items_rejected [OF d1 e1 e2 d2, of "[]"]
  show ?thesis
    by (simp add: r3 d3)
qed

text \<open>Claim C7. The claim says that in immediate mode every eligible item gets a send
  time at least one minute after the time of the request, and the comment in the code
  says that a minute is added to ensure that the time is in the future. In the hour that
  the end of daylight saving repeats, it is not: in New York on 3 November 2024 at 06:30
  UTC (01:30 local time, the second pass through that hour),
  \<open>setMinutes(getMinutes() + 1)\<close> sets 01:31 on the local clock, which is read as the
  first pass: 05:31 UTC, 59 minutes before the request. The eligible item is scheduled
  and stored with that time.\<close>

theorem immediate_send_in_repeated_hour:
  "sendNow now_request \<and> clock repeated_hour_env 0 = 1730615400000 \<and>
   eligible (cold ''n2'' ''b@example.com'') \<and>
   schedule_sequence repeated_hour_env now_request [] =
     (Json 200 (SequenceSent ''Sequence sent successfully''
        [\<lparr>email = Some ''b@example.com'', entry_subject = Some ''Hello'',
          scheduledFor = 1730611860000\<rparr>]),
      [\<lparr>name = ''send email'',
        data = \<lparr>job_to = Some ''b@example.com'', job_subject = Some ''Hello'',
                job_body = Some ''Hi'', job_userId = ''u1''\<rparr>,
        nextRunAt = Some 1730611860000, lockedAt = None\<rparr>]) \<and>
   1730611860000 = 1730615400000 - 59 * msPerMinute \<and>
   \<not> (1730615400000 + msPerMinute \<le> (1730611860000 :: int))"
  by code_simp

end
